theory Spec2Isabelle
  imports Main "HOL-Library.Sublist"
begin

section \<open>The HTTP response writer\<close>

text \<open>
  The handlers of \<^verbatim>\<open>server/handlers.go\<close> write to an \<^verbatim>\<open>http.ResponseWriter\<close>.
  The writer is modelled as explicit state: the status code once it is fixed, and the
  bytes of the body written so far. \<^verbatim>\<open>WriteHeader\<close> fixes the code unless it is
  fixed already; the first write fixes it to 200; a handler that returns without writing
  anything answers 200 with an empty body.
\<close>

record ResponseWriter =
  rw_status :: "nat option"
  rw_body :: string

definition newResponseWriter :: ResponseWriter where
  "newResponseWriter = \<lparr>rw_status = None, rw_body = []\<rparr>"

definition WriteHeader :: "nat \<Rightarrow> ResponseWriter \<Rightarrow> ResponseWriter" where
  "WriteHeader code w = (case rw_status w of None \<Rightarrow> w\<lparr>rw_status := Some code\<rparr> | Some _ \<Rightarrow> w)"

text \<open>
  \<^verbatim>\<open>fmt.Fprintf(w, s)\<close> and \<^verbatim>\<open>fmt.Fprintln(w, s)\<close> for a text \<open>s\<close> that is already
  formatted (the literal format strings of the handlers hold no verb).
\<close>

definition Fprintf :: "string \<Rightarrow> ResponseWriter \<Rightarrow> ResponseWriter" where
  "Fprintf s w =
     (case rw_status w of
        None \<Rightarrow> w\<lparr>rw_status := Some 200, rw_body := rw_body w @ s\<rparr>
      | Some _ \<Rightarrow> w\<lparr>rw_body := rw_body w @ s\<rparr>)"


definition StatusOK :: nat where "StatusOK = 200"
definition StatusBadRequest :: nat where "StatusBadRequest = 400"
definition StatusInternalServerError :: nat where "StatusInternalServerError = 500"

definition statusCode :: "ResponseWriter \<Rightarrow> nat" where
  "statusCode w = (case rw_status w of None \<Rightarrow> StatusOK | Some code \<Rightarrow> code)"

text \<open>The three literal failure bodies of the handlers.\<close>

definition internalServerErrorBody :: string where
  \<open>internalServerErrorBody =
     ''{"code":"500","title":"Internal Server Error","detail":"Something went wrong."}]}'' @ [CHR 0x0A]\<close>

definition invalidJsonBody :: string where
  \<open>invalidJsonBody =
     ''{"code":"400","title":"Bad Request","detail":"Invalid json format."}]}'' @ [CHR 0x0A]\<close>

definition invalidCommandBody :: string where
  \<open>invalidCommandBody =
     ''{"code":"400","title":"Bad Request","detail":"Invalid command for target."}]}'' @ [CHR 0x0A]\<close>

section \<open>Fleet commands: \<^verbatim>\<open>setStatusHandler\<close>\<close>

record MonmqCmd =
  Target :: string
  Command :: string

text \<open>
  The type \<^verbatim>\<open>monmq.Command\<close> and its four constants belong to the supervisor library.
  They are taken as a parameter: the four constants, and the zero value that
  \<^verbatim>\<open>var command monmq.Command\<close> starts with.
\<close>

record 'c monmq =
  ZeroCommand :: 'c
  SoftShutdown :: 'c
  HardShutdown :: 'c
  Pause :: 'c
  Resume :: 'c

text \<open>The \<^verbatim>\<open>switch\<close> of lines 81-91: four cases and no default.\<close>

definition switchCommand :: "'c monmq \<Rightarrow> string \<Rightarrow> 'c" where
  "switchCommand m text =
     (if text = ''softshutdown'' then SoftShutdown m
      else if text = ''hardshutdown'' then HardShutdown m
      else if text = ''pause'' then Pause m
      else if text = ''resume'' then Resume m
      else ZeroCommand m)"

text \<open>
  The handler. \<open>readAll\<close> is the outcome of \<^verbatim>\<open>ioutil.ReadAll(r.Body)\<close>, \<open>unmarshal\<close> is
  \<^verbatim>\<open>json.Unmarshal\<close> into a \<^verbatim>\<open>MonmqCmd\<close>, \<open>invoke\<close> is \<^verbatim>\<open>s.supervisor.Invoke\<close>
  (\<open>None\<close> is a nil error). The result is the writer and the list of calls forwarded
  to the supervisor, each with its command and target.
\<close>

definition setStatusHandler ::
  "'c monmq \<Rightarrow> ('c \<Rightarrow> string \<Rightarrow> 'e option) \<Rightarrow> (string \<Rightarrow> 'd + MonmqCmd) \<Rightarrow> 'r + string \<Rightarrow>
   ResponseWriter \<Rightarrow> ResponseWriter \<times> ('c \<times> string) list" where
  "setStatusHandler m invoke unmarshal readAll w =
     (case readAll of
        Inl err \<Rightarrow> (Fprintf internalServerErrorBody (WriteHeader StatusInternalServerError w), [])
      | Inr data \<Rightarrow>
          (case unmarshal data of
             Inl err \<Rightarrow> (Fprintf invalidJsonBody (WriteHeader StatusBadRequest w), [])
           | Inr cmd \<Rightarrow>
               (let command = switchCommand m (Command cmd) in
                (case invoke command (Target cmd) of
                   Some err \<Rightarrow>
                     (Fprintf invalidCommandBody (WriteHeader StatusBadRequest w),
                      [(command, Target cmd)])
                 | None \<Rightarrow> (w, [(command, Target cmd)])))))"

text \<open>
  Concrete collaborators for closed evaluations: command constants told apart from the
  zero value, a decoder that yields one fixed command, and supervisors that
  accept every call or fail every call in a given way. The failure kinds are those the
  specification distinguishes for the supervisor's command call.
\<close>

datatype supervisor_failure = NotValidForState | UnknownTarget | TransportFailure

definition distinctCommands :: "nat monmq" where
  "distinctCommands = \<lparr>ZeroCommand = 0, SoftShutdown = 1, HardShutdown = 2, Pause = 3, Resume = 4\<rparr>"

definition decodesTo :: "MonmqCmd \<Rightarrow> string \<Rightarrow> unit + MonmqCmd" where
  "decodesTo cmd data = Inr cmd"

definition acceptAll :: "nat \<Rightarrow> string \<Rightarrow> supervisor_failure option" where
  "acceptAll command target = None"

definition failAll :: "supervisor_failure \<Rightarrow> nat \<Rightarrow> string \<Rightarrow> supervisor_failure option" where
  "failAll e command target = Some e"

definition bodyRead :: "string \<Rightarrow> unit + string" where
  "bodyRead data = Inr data"

section \<open>Task submission: \<^verbatim>\<open>tasksHandler\<close>\<close>



section \<open>Filter criteria: \<^verbatim>\<open>extractFilters\<close>\<close>

record Banner =
  Ip :: string
  Port :: string
  Service :: string
  Content :: string

record Filters =
  Ip :: string
  Ports :: "string list"
  Services :: "string list"
  Regexp :: string

text \<open>
  \<^verbatim>\<open>strings.TrimPrefix\<close>, and \<^verbatim>\<open>strings.Split\<close> for a separator of one byte (the
  source only splits at a comma): the pieces between the separators, empty pieces kept,
  one empty piece for the empty string.
\<close>

definition TrimPrefix :: "string \<Rightarrow> string \<Rightarrow> string" where
  "TrimPrefix s p = (if prefix p s then drop (length p) s else s)"

fun strings_Split :: "string \<Rightarrow> char \<Rightarrow> string list" where
  "strings_Split [] sep = [[]]"
| "strings_Split (c # cs) sep =
     (if c = sep then [] # strings_Split cs sep
      else (case strings_Split cs sep of
              piece # pieces \<Rightarrow> (c # piece) # pieces
            | [] \<Rightarrow> [[c]]))"

text \<open>
  \<^verbatim>\<open>request.URL.Query()\<close> collects, for each key, the values of its occurrences in the
  order they appear in the query string. The query string is modelled as the list of
  its decoded key-value pairs in that order; \<open>values_get values k\<close> is \<^verbatim>\<open>values[k]\<close>,
  with \<open>[]\<close> for the nil slice of a key that does not occur.
\<close>

type_synonym Values = "(string \<times> string) list"

definition values_get :: "Values \<Rightarrow> string \<Rightarrow> string list" where
  "values_get values k = map snd (filter (\<lambda>kv. fst kv = k) values)"

definition extractFilters :: "string \<Rightarrow> Values \<Rightarrow> Filters" where
  "extractFilters path values =
     (let ip = TrimPrefix path ''/ips'';
          ip = (if ip \<noteq> [] then TrimPrefix ip ''/'' else ip);
          p = (case values_get values ''port'' of [] \<Rightarrow> [] | v # _ \<Rightarrow> strings_Split v (CHR '',''));
          s = (case values_get values ''service'' of [] \<Rightarrow> [] | v # _ \<Rightarrow> strings_Split v (CHR '',''));
          r = (case values_get values ''regexp'' of [] \<Rightarrow> [] | v # _ \<Rightarrow> v)
      in \<lparr>Ip = ip, Ports = p, Services = s, Regexp = r\<rparr>)"

section \<open>The query text and its arguments\<close>

text \<open>
  The values a template pipeline handles here are strings and slices of strings. A value
  is true unless it is empty; \<^verbatim>\<open>or\<close> yields its first non-empty argument or else the
  last one, \<^verbatim>\<open>and\<close> its first empty argument or else the last one.
\<close>

datatype tval = String string | Slice "string list"

fun truth :: "tval \<Rightarrow> bool" where
  "truth (String s) = (s \<noteq> [])"
| "truth (Slice xs) = (xs \<noteq> [])"

fun tmpl_or :: "tval \<Rightarrow> tval list \<Rightarrow> tval" where
  "tmpl_or arg0 [] = arg0"
| "tmpl_or arg0 (a # args) = (if truth arg0 then arg0 else tmpl_or a args)"

fun tmpl_and :: "tval \<Rightarrow> tval list \<Rightarrow> tval" where
  "tmpl_and arg0 [] = arg0"
| "tmpl_and arg0 (a # args) = (if \<not> truth arg0 then arg0 else tmpl_and a args)"

text \<open>
  The body of \<^verbatim>\<open>{{range $i, $v := .}}{{if $i}},{{end}}?{{end}}\<close>, from index \<open>i\<close> on:
  a comma before every element but the one at index 0, then one question mark.
\<close>

fun rangePlaceholders :: "nat \<Rightarrow> string list \<Rightarrow> string" where
  "rangePlaceholders i [] = []"
| "rangePlaceholders i (v # vs) =
     (if i \<noteq> 0 then '','' else []) @ ''?'' @ rangePlaceholders (Suc i) vs"

text \<open>
  \<open>queryTemplate f\<close> is the text that executing the template \<^verbatim>\<open>queryTemplate\<close> on the
  criteria \<open>f\<close> writes, line by line as in the source (the template's six lines are
  separated by newlines).
\<close>

definition queryTemplate :: "Filters \<Rightarrow> string" where
  "queryTemplate f =
     ''SELECT DISTINCT INET_NTOA(ip), port, service, content FROM banners'' @ [CHR 0x0A] @
     (if truth (tmpl_or (String (Ip f)) [Slice (Ports f), Slice (Services f), String (Regexp f)])
      then '' WHERE'' else []) @ [CHR 0x0A] @
     (if truth (String (Ip f)) then '' ip = INET_ATON((?))'' else []) @ [CHR 0x0A] @
     (if truth (tmpl_and (String (Ip f)) [Slice (Ports f)]) then '' AND'' else []) @
     (if truth (Slice (Ports f))
      then '' port IN ('' @ rangePlaceholders 0 (Ports f) @ '')'' else []) @ [CHR 0x0A] @
     (if truth (tmpl_and (Slice (Services f)) [tmpl_or (String (Ip f)) [Slice (Ports f)]])
      then '' AND'' else []) @
     (if truth (Slice (Services f))
      then '' service IN ('' @ rangePlaceholders 0 (Services f) @ '')'' else []) @ [CHR 0x0A] @
     (if truth (tmpl_and (String (Regexp f))
                 [tmpl_or (String (Ip f)) [Slice (Ports f), Slice (Services f)]])
      then '' AND'' else []) @
     (if truth (String (Regexp f)) then '' content regexp (?)'' else []) @ '';''"

text \<open>The argument slice \<^verbatim>\<open>data\<close> of lines 120-132, each \<^verbatim>\<open>for\<close> loop a fold.\<close>

definition queryData :: "Filters \<Rightarrow> string list" where
  "queryData f =
     (let data = [];
          data = (if Ip f \<noteq> [] then data @ [Ip f] else data);
          data = foldl (\<lambda>data v. data @ [v]) data (Ports f);
          data = foldl (\<lambda>data v. data @ [v]) data (Services f);
          data = (if Regexp f \<noteq> [] then data @ [Regexp f] else data)
      in data)"

definition placeholders :: "string \<Rightarrow> nat" where
  "placeholders query = count_list query (CHR ''?'')"

section \<open>Result queries: \<^verbatim>\<open>queryHandler\<close>\<close>

text \<open>
  \<^verbatim>\<open>base64.StdEncoding.EncodeToString\<close> of the standard library: three bytes make a
  24-bit value that is cut into four 6-bit indices into the alphabet; a last group of
  one or two bytes is padded with \<open>=\<close>.
\<close>

definition encodeStd :: string where
  "encodeStd = ''ABCDEFGHIJKLMNOPQRSTUVWXYZabcdefghijklmnopqrstuvwxyz0123456789+/''"

fun EncodeToString :: "string \<Rightarrow> string" where
  "EncodeToString [] = []"
| "EncodeToString [a] =
     (let val = (of_char a :: nat) * 65536 in
      [encodeStd ! (val div 262144 mod 64), encodeStd ! (val div 4096 mod 64),
       CHR ''='', CHR ''=''])"
| "EncodeToString [a, b] =
     (let val = (of_char a :: nat) * 65536 + of_char b * 256 in
      [encodeStd ! (val div 262144 mod 64), encodeStd ! (val div 4096 mod 64),
       encodeStd ! (val div 64 mod 64), CHR ''=''])"
| "EncodeToString (a # b # c # rest) =
     (let val = (of_char a :: nat) * 65536 + of_char b * 256 + of_char c in
      [encodeStd ! (val div 262144 mod 64), encodeStd ! (val div 4096 mod 64),
       encodeStd ! (val div 64 mod 64), encodeStd ! (val mod 64)] @ EncodeToString rest)"

text \<open>
  The cursor \<^verbatim>\<open>*sql.Rows\<close>. \<open>Scans\<close> is the list of the outcomes of \<^verbatim>\<open>rows.Scan\<close>,
  one for each row that \<^verbatim>\<open>rows.Next()\<close> announces before it returns false: an error,
  or the four columns as a \<^verbatim>\<open>Banner\<close>. \<^verbatim>\<open>Next\<close> returns false when the rows are
  exhausted and also when fetching the next row fails; \<open>Err\<close> is what \<^verbatim>\<open>rows.Err()\<close>
  holds after that, \<open>None\<close> when the rows were exhausted.
\<close>

record 'e Rows =
  Scans :: "('e + Banner) list"
  Err :: "'e option"

text \<open>
  The loop of lines 143-154 over the announced rows. The first failing scan ends the
  loop with its error; otherwise the content is encoded and the record appended to
  \<open>result\<close>.
\<close>

fun scanRows :: "('e + Banner) list \<Rightarrow> Banner list \<Rightarrow> 'e + Banner list" where
  "scanRows [] result = Inr result"
| "scanRows (row # rows) result =
     (case row of
        Inl err \<Rightarrow> Inl err
      | Inr curr' \<Rightarrow> scanRows rows (result @ [curr'\<lparr>Content := EncodeToString (Content curr')\<rparr>]))"

text \<open>
  The handler. \<open>prepare\<close> is \<^verbatim>\<open>s.database.Prepare\<close>, which yields an error or a
  statement; a statement is its \<^verbatim>\<open>Query\<close> method, from the bound arguments to an
  error or a cursor. \<open>marshal\<close> is \<^verbatim>\<open>json.Marshal\<close> of the result slice, and
  \<open>sprintf\<close> is what \<^verbatim>\<open>fmt\<close> makes of a format string without operands, since the
  marshalled text is passed to \<^verbatim>\<open>Fprintf\<close> as the format. Executing the template on
  a \<^verbatim>\<open>Filters\<close> value has no failing step, so that branch is absent. After the loop
  the handler goes on to marshal: it never reads \<^verbatim>\<open>rows.Err()\<close>, so \<open>Err rows\<close> does
  not occur below.
\<close>

definition queryHandler ::
  "(string \<Rightarrow> 'p + (string list \<Rightarrow> 'q + 'e Rows)) \<Rightarrow> (Banner list \<Rightarrow> 'm + string) \<Rightarrow>
   (string \<Rightarrow> string) \<Rightarrow> string \<Rightarrow> Values \<Rightarrow> ResponseWriter \<Rightarrow> ResponseWriter" where
  "queryHandler prepare marshal sprintf path values w =
     (let f = extractFilters path values;
          query = queryTemplate f
      in case prepare query of
           Inl err \<Rightarrow> Fprintf internalServerErrorBody (WriteHeader StatusInternalServerError w)
         | Inr stmt \<Rightarrow>
             (let data = queryData f
              in case stmt data of
                   Inl err \<Rightarrow>
                     Fprintf internalServerErrorBody (WriteHeader StatusInternalServerError w)
                 | Inr rows \<Rightarrow>
                     (case scanRows (Scans rows) [] of
                        Inl err \<Rightarrow>
                          Fprintf internalServerErrorBody
                            (WriteHeader StatusInternalServerError w)
                      | Inr result \<Rightarrow>
                          (case marshal result of
                             Inl err \<Rightarrow>
                               Fprintf internalServerErrorBody
                                 (WriteHeader StatusInternalServerError w)
                           | Inr jsoned \<Rightarrow> Fprintf (sprintf jsoned) w))))"

text \<open>
  Concrete collaborators for closed evaluations: a store whose every query yields a given
  cursor, a marshaller that lists the records' fields without escaping, and the
  formatting of a text without verbs.
\<close>

definition stmtOf :: "unit Rows \<Rightarrow> string list \<Rightarrow> unit + unit Rows" where
  "stmtOf rows data = Inr rows"

definition storeOf ::
  "unit Rows \<Rightarrow> string \<Rightarrow> unit + (string list \<Rightarrow> unit + unit Rows)" where
  "storeOf rows query = Inr (stmtOf rows)"

definition marshalFields :: "Banner list \<Rightarrow> unit + string" where
  "marshalFields bs =
     Inr (concat (map (\<lambda>b. Banner.Ip b @ '' '' @ Port b @ '' '' @ Service b @ '' '' @ Content b @ '';'') bs))"

definition noVerbs :: "string \<Rightarrow> string" where
  "noVerbs s = s"

section \<open>Fleet commands: results\<close>

text \<open>
  C1 (the code at the failing input). The claim: a command text that is none of the four
  literals is rejected with InvalidCommand and nothing is forwarded. The code at the
  command text \<open>nonsense\<close> for target \<open>w1\<close>: the \<^verbatim>\<open>switch\<close> matches no case, the
  zero value of the command type is forwarded to the supervisor, and when the supervisor
  accepts it the answer is an empty 200.
\<close>

theorem setStatusHandler_unrecognized_forwards_zero:
  "setStatusHandler distinctCommands acceptAll
     (decodesTo \<lparr>Target = ''w1'', Command = ''nonsense''\<rparr>) (bodyRead ''{}'') newResponseWriter
   = (newResponseWriter, [(ZeroCommand distinctCommands, ''w1'')])
   \<and> statusCode newResponseWriter = 200"
  by (simp add: setStatusHandler_def switchCommand_def decodesTo_def bodyRead_def acceptAll_def
      statusCode_def StatusOK_def newResponseWriter_def)

text \<open>
  C4 (counterexample). The claim: a transport-level failure of the supervisor call
  surfaces as a 5xx-class response, distinguished from the 4xx for an invalid command.
  The code at the recognized command \<open>pause\<close> with a supervisor whose call fails at
  transport level: the status is 400, and the response is the very one given when the
  command is not valid for the target's state.
\<close>

theorem setStatusHandler_transport_failure_is_400:
  "statusCode (fst (setStatusHandler distinctCommands (failAll TransportFailure)
     (decodesTo \<lparr>Target = ''w1'', Command = ''pause''\<rparr>) (bodyRead ''{}'') newResponseWriter)) = 400
   \<and> \<not> 500 \<le> statusCode (fst (setStatusHandler distinctCommands (failAll TransportFailure)
     (decodesTo \<lparr>Target = ''w1'', Command = ''pause''\<rparr>) (bodyRead ''{}'') newResponseWriter))
   \<and> fst (setStatusHandler distinctCommands (failAll TransportFailure)
     (decodesTo \<lparr>Target = ''w1'', Command = ''pause''\<rparr>) (bodyRead ''{}'') newResponseWriter)
     = fst (setStatusHandler distinctCommands (failAll NotValidForState)
     (decodesTo \<lparr>Target = ''w1'', Command = ''pause''\<rparr>) (bodyRead ''{}'') newResponseWriter)"
  by (simp add: setStatusHandler_def switchCommand_def decodesTo_def bodyRead_def failAll_def
      statusCode_def StatusBadRequest_def newResponseWriter_def WriteHeader_def Fprintf_def)

text \<open>
  C4 (amended). For a recognized command text, every failure of the supervisor's command
  call, of whatever kind, surfaces as one and the same response: status 400 with the
  body "Invalid command for target.", after exactly one forwarding call with the mapped
  command. The kind of the failure is not visible in the response.
\<close>

theorem setStatusHandler_invoke_failure_uniform:
  assumes "name \<in> {''softshutdown'', ''hardshutdown'', ''pause'', ''resume''}"
    and "unmarshal data = Inr \<lparr>Target = target, Command = name\<rparr>"
    and "invoke (switchCommand m name) target = Some e"
  shows "setStatusHandler m invoke unmarshal (Inr data :: 'r + string) newResponseWriter
         = (\<lparr>rw_status = Some 400, rw_body = invalidCommandBody\<rparr>, [(switchCommand m name, target)])
       \<and> statusCode (fst (setStatusHandler m invoke unmarshal (Inr data :: 'r + string) newResponseWriter)) = 400
       \<and> switchCommand m name =
           (if name = ''softshutdown'' then SoftShutdown m
            else if name = ''hardshutdown'' then HardShutdown m
            else if name = ''pause'' then Pause m else Resume m)"
  using assms
  by (auto simp add: setStatusHandler_def statusCode_def StatusBadRequest_def
      newResponseWriter_def WriteHeader_def Fprintf_def switchCommand_def)

theorem setStatusHandler_invoke_failure_uniform_witness:
  "setStatusHandler distinctCommands (failAll TransportFailure)
     (decodesTo \<lparr>Target = ''w1'', Command = ''pause''\<rparr>) (Inr ''{}'' :: unit + string) newResponseWriter
   = (\<lparr>rw_status = Some 400, rw_body = invalidCommandBody\<rparr>, [(3, ''w1'')])"
proof -
  have a: "''pause'' \<in> {''softshutdown'', ''hardshutdown'', ''pause'', ''resume''}"
    by simp
  have b: "decodesTo \<lparr>Target = ''w1'', Command = ''pause''\<rparr> ''{}''
           = (Inr \<lparr>Target = ''w1'', Command = ''pause''\<rparr> :: unit + MonmqCmd)"
    by (simp add: decodesTo_def)
  have c: "failAll TransportFailure (switchCommand distinctCommands ''pause'') ''w1''
           = Some TransportFailure"
    by (simp add: failAll_def)
  have d: "switchCommand distinctCommands ''pause'' = 3"
    by (simp add: switchCommand_def distinctCommands_def)
  show ?thesis
    using setStatusHandler_invoke_failure_uniform
      [where 'r = unit and name = "''pause''" and target = "''w1''" and data = "''{}''"
         and unmarshal = "decodesTo \<lparr>Target = ''w1'', Command = ''pause''\<rparr>"
         and invoke = "failAll TransportFailure" and m = distinctCommands
         and e = TransportFailure, OF a b c] d
    by simp
qed


section \<open>The query text and its arguments: results\<close>

lemma foldl_append_each: "foldl (\<lambda>data v. data @ [v]) data xs = data @ xs"
  by (induction xs arbitrary: data) simp_all

lemma queryData_eq:
  "queryData f =
     (if Ip f \<noteq> [] then [Ip f] else []) @ Ports f @ Services f @
     (if Regexp f \<noteq> [] then [Regexp f] else [])"
  by (simp add: queryData_def foldl_append_each)

lemma count_rangePlaceholders: "count_list (rangePlaceholders i xs) (CHR ''?'') = length xs"
  by (induction xs arbitrary: i) simp_all

text \<open>
  C2. The argument sequence is the IP if it is present (not empty), then the ports in the
  order given, then the services in the order given, then the regular expression if it is
  present; for ip 1.2.3.4, ports 80 and 443, service http and regexp ssh it is exactly
  1.2.3.4, 80, 443, http, ssh.
\<close>

theorem queryData_order:
  "queryData f =
     (if Ip f \<noteq> [] then [Ip f] else []) @ Ports f @ Services f @
     (if Regexp f \<noteq> [] then [Regexp f] else [])
   \<and> queryData \<lparr>Ip = ''1.2.3.4'', Ports = [''80'', ''443''], Services = [''http''],
                  Regexp = ''ssh''\<rparr>
     = [''1.2.3.4'', ''80'', ''443'', ''http'', ''ssh'']"
  by (simp add: queryData_eq)

text \<open>
  C3. For every criteria value, the number of question-mark placeholders in the query
  text equals the length of the argument sequence.
\<close>

theorem placeholders_eq_length_queryData:
  "placeholders (queryTemplate f) = length (queryData f)"
  by (simp add: placeholders_def queryTemplate_def queryData_eq count_rangePlaceholders)

text \<open>
  C5. The criteria with every field absent, as extracted from the path \<open>/ips\<close> without
  query parameters: the query text is the bare selection, it holds no \<open>WHERE\<close> and no
  placeholder, and the argument sequence is empty.
\<close>

theorem empty_criteria_unfiltered:
  "extractFilters ''/ips'' [] = \<lparr>Ip = [], Ports = [], Services = [], Regexp = []\<rparr>
   \<and> queryTemplate \<lparr>Ip = [], Ports = [], Services = [], Regexp = []\<rparr>
     = ''SELECT DISTINCT INET_NTOA(ip), port, service, content FROM banners''
       @ [CHR 0x0A, CHR 0x0A, CHR 0x0A, CHR 0x0A, CHR 0x0A] @ '';''
   \<and> \<not> sublist ''WHERE'' (queryTemplate \<lparr>Ip = [], Ports = [], Services = [], Regexp = []\<rparr>)
   \<and> placeholders (queryTemplate \<lparr>Ip = [], Ports = [], Services = [], Regexp = []\<rparr>) = 0
   \<and> queryData \<lparr>Ip = [], Ports = [], Services = [], Regexp = []\<rparr> = []"
  by (simp add: extractFilters_def TrimPrefix_def values_get_def queryTemplate_def
      queryData_def placeholders_def sublist_Cons_right)

text \<open>
  C6. An empty element of the port or service list is bound like any other: the empty
  strings among the arguments are exactly those of the two lists. The value
  \<open>80,,443\<close> of the \<open>port\<close> parameter splits into 80, the empty string and 443; the
  argument sequence holds these three values, and the port clause holds three
  placeholders.
\<close>

theorem empty_segment_bound:
  "count_list (queryData f) [] = count_list (Ports f) [] + count_list (Services f) []
   \<and> strings_Split ''80,,443'' (CHR '','') = [''80'', [], ''443'']
   \<and> extractFilters ''/ips'' [(''port'', ''80,,443'')]
     = \<lparr>Ip = [], Ports = [''80'', [], ''443''], Services = [], Regexp = []\<rparr>
   \<and> queryData \<lparr>Ip = [], Ports = [''80'', [], ''443''], Services = [], Regexp = []\<rparr>
     = [''80'', [], ''443'']
   \<and> queryTemplate \<lparr>Ip = [], Ports = [''80'', [], ''443''], Services = [], Regexp = []\<rparr>
     = ''SELECT DISTINCT INET_NTOA(ip), port, service, content FROM banners'' @ [CHR 0x0A]
       @ '' WHERE'' @ [CHR 0x0A, CHR 0x0A] @ '' port IN (?,?,?)'' @ [CHR 0x0A, CHR 0x0A] @ '';''"
  by (simp add: queryData_eq extractFilters_def TrimPrefix_def values_get_def queryTemplate_def)

lemma case_values_get_drop_later:
  "(case values_get (pre @ (k, v) # filter (\<lambda>kv. fst kv \<noteq> k) rest) k' of [] \<Rightarrow> a | x # _ \<Rightarrow> g x)
   = (case values_get (pre @ (k, v) # rest) k' of [] \<Rightarrow> a | x # _ \<Rightarrow> g x)"
proof (cases "k' = k")
  case True
  then show ?thesis
    by (cases "filter (\<lambda>kv. fst kv = k) pre") (simp_all add: values_get_def)
next
  case False
  have "filter (\<lambda>kv. fst kv = k') (filter (\<lambda>kv. fst kv \<noteq> k) rest) = filter (\<lambda>kv. fst kv = k') rest"
    using False by (induction rest) auto
  then show ?thesis
    using False by (simp add: values_get_def)
qed

lemma values_get_first_occurrence:
  "k \<notin> fst ` set pre \<Longrightarrow> values_get (pre @ (k, v) # rest) k = v # values_get rest k"
proof -
  assume "k \<notin> fst ` set pre"
  then have "filter (\<lambda>kv. fst kv = k) pre = []"
    by (induction pre) auto
  then show ?thesis
    by (simp add: values_get_def)
qed

text \<open>
  C10. Of a query-string parameter that occurs more than once only the first occurrence
  counts. Wherever the first \<open>port\<close> pair stands in the query string, the port list is
  the split of its value, whatever pairs precede it under other keys and whatever pairs
  follow it; likewise the service list for the first \<open>service\<close> pair, and the regular
  expression is the value of the first \<open>regexp\<close> pair. Removing every occurrence of a
  key after one of its occurrences leaves the criteria unchanged. For
  \<open>port=80&port=443\<close>, and for \<open>service=http&port=80&port=443\<close>, the port list is 80
  alone.
\<close>

theorem extractFilters_first_occurrence_only:
  assumes "''port'' \<notin> fst ` set pp"
    and "''service'' \<notin> fst ` set ps"
    and "''regexp'' \<notin> fst ` set pr"
  shows "Ports (extractFilters path (pp @ (''port'', v) # rest)) = strings_Split v (CHR '','')
   \<and> Services (extractFilters path (ps @ (''service'', v) # rest)) = strings_Split v (CHR '','')
   \<and> Regexp (extractFilters path (pr @ (''regexp'', v) # rest)) = v
   \<and> extractFilters path (pre @ (k, v) # rest)
     = extractFilters path (pre @ (k, v) # filter (\<lambda>kv. fst kv \<noteq> k) rest)
   \<and> Ports (extractFilters ''/ips'' [(''port'', ''80''), (''port'', ''443'')]) = [''80'']
   \<and> Ports (extractFilters ''/ips'' [(''service'', ''http''), (''port'', ''80''), (''port'', ''443'')])
     = [''80'']"
proof -
  have p: "Ports (extractFilters path (pp @ (''port'', v) # rest)) = strings_Split v (CHR '','')"
    by (simp add: extractFilters_def Let_def values_get_first_occurrence [OF assms(1)])
  have s: "Services (extractFilters path (ps @ (''service'', v) # rest)) = strings_Split v (CHR '','')"
    by (simp add: extractFilters_def Let_def values_get_first_occurrence [OF assms(2)])
  have r: "Regexp (extractFilters path (pr @ (''regexp'', v) # rest)) = v"
    by (simp add: extractFilters_def Let_def values_get_first_occurrence [OF assms(3)])
  have d: "extractFilters path (pre @ (k, v) # rest)
           = extractFilters path (pre @ (k, v) # filter (\<lambda>kv. fst kv \<noteq> k) rest)"
    by (simp add: extractFilters_def case_values_get_drop_later Let_def)
  have e1: "Ports (extractFilters ''/ips'' [(''port'', ''80''), (''port'', ''443'')]) = [''80'']"
    by (simp add: extractFilters_def Let_def values_get_def)
  have e2: "Ports (extractFilters ''/ips''
              [(''service'', ''http''), (''port'', ''80''), (''port'', ''443'')]) = [''80'']"
    by (simp add: extractFilters_def Let_def values_get_def)
  from p s r d e1 e2 show ?thesis
    by blast
qed

theorem extractFilters_first_occurrence_only_witness:
  "''port'' \<notin> fst ` set [(''service'', ''http'')]
   \<and> ''service'' \<notin> fst ` set [(''regexp'', ''ssh''), (''port'', ''22'')]
   \<and> ''regexp'' \<notin> fst ` set ([] :: (string \<times> string) list)
   \<and> Ports (extractFilters ''/ips''
        ([(''service'', ''http'')] @ (''port'', ''80,443'') # [(''port'', ''8080'')]))
     = [''80'', ''443'']
   \<and> Services (extractFilters ''/ips''
        ([(''regexp'', ''ssh''), (''port'', ''22'')] @ (''service'', ''80,443'') # [(''port'', ''8080'')]))
     = [''80'', ''443'']
   \<and> Regexp (extractFilters ''/ips'' ([] @ (''regexp'', ''80,443'') # [(''port'', ''8080'')]))
     = ''80,443''"
proof -
  have a: "''port'' \<notin> fst ` set [(''service'', ''http'')]"
    by simp
  have b: "''service'' \<notin> fst ` set [(''regexp'', ''ssh''), (''port'', ''22'')]"
    by simp
  have c: "''regexp'' \<notin> fst ` set ([] :: (string \<times> string) list)"
    by simp
  have d: "strings_Split ''80,443'' (CHR '','') = [''80'', ''443'']"
    by simp
  show ?thesis
    using a b c d extractFilters_first_occurrence_only
      [where pp = "[(''service'', ''http'')]"
         and ps = "[(''regexp'', ''ssh''), (''port'', ''22'')]"
         and pr = "[]" and path = "''/ips''" and v = "''80,443''"
         and rest = "[(''port'', ''8080'')]", OF a b c]
    by simp
qed

section \<open>Result queries: results\<close>

lemma scanRows_error: "Inl err \<in> set rows \<Longrightarrow> \<exists>e. scanRows rows acc = Inl e"
  by (induction rows arbitrary: acc) (auto split: sum.splits)


lemma queryHandler_scan_failure:
  assumes "prepare (queryTemplate (extractFilters path vals)) = Inr stmt"
    and "stmt (queryData (extractFilters path vals)) = Inr rows"
    and "Inl err \<in> set (Scans rows)"
  shows "queryHandler prepare marshal sprintf path vals newResponseWriter
         = \<lparr>rw_status = Some 500, rw_body = internalServerErrorBody\<rparr>"
proof -
  obtain e where "scanRows (Scans rows) [] = Inl e"
    using scanRows_error [OF assms(3)] by blast
  then show ?thesis
    using assms(1,2)
    by (simp add: queryHandler_def Let_def WriteHeader_def Fprintf_def newResponseWriter_def
        StatusInternalServerError_def)
qed

text \<open>
  C7 (the code at the failing input). The claim: when decoding any row fails, the whole
  call fails with a 5xx and no truncated collection is returned as a success. A failing
  \<^verbatim>\<open>rows.Scan\<close> does give the 500 (\<open>queryHandler_scan_failure\<close>). But at a cursor that
  announces one row and then fails to fetch the next one, so that \<^verbatim>\<open>rows.Next()\<close>
  returns false with \<^verbatim>\<open>rows.Err()\<close> set, the loop just ends: the answer is 200 with
  the one row decoded so far as its body.
\<close>

theorem queryHandler_next_failure_truncated_success:
  "queryHandler
     (storeOf \<lparr>Scans = [Inr \<lparr>Banner.Ip = ''1.2.3.4'', Port = ''22'', Service = ''ssh'',
                              Content = ''hello''\<rparr>],
               Err = Some ()\<rparr>)
     marshalFields noVerbs ''/ips'' [] newResponseWriter
   = \<lparr>rw_status = Some 200, rw_body = ''1.2.3.4 22 ssh aGVsbG8=;''\<rparr>
   \<and> statusCode (queryHandler
     (storeOf \<lparr>Scans = [Inr \<lparr>Banner.Ip = ''1.2.3.4'', Port = ''22'', Service = ''ssh'',
                              Content = ''hello''\<rparr>],
               Err = Some ()\<rparr>)
     marshalFields noVerbs ''/ips'' [] newResponseWriter) = 200"
  by (simp add: queryHandler_def storeOf_def stmtOf_def marshalFields_def noVerbs_def
      Fprintf_def newResponseWriter_def statusCode_def encodeStd_def)




section \<open>Task submission: results\<close>


end
